theory Spec2Isabelle
  imports Main "HOL-Library.Multiset"
begin

section \<open>Data model of the chat session (main.go)\<close>

text \<open>
  A Go string is modelled as a \<open>string\<close>, read as the sequence of its characters:
  a \<open>char\<close> stands for the character with that code point, U+0000 to U+00FF, and
  strings with other characters are outside the model. Go's \<open>error\<close> values are
  opaque and are modelled by their message.
\<close>

datatype error = Error string

text \<open>
  Modelled from the spec: the type \<open>Message\<close> of the remote-service client is declared
  outside main.go. The spec (section 6) gives each fetched message an id, a text and a
  sender reference; main.go reads the fields \<open>Ts\<close> and \<open>Text\<close> and hands the whole
  message to \<open>UsernameForMessage\<close>.
\<close>

record Message =
  Ts :: string
  Text :: string
  User :: string

text \<open>
  Modelled from the spec: \<open>SlackClient\<close> is declared outside main.go, which reads only
  its \<open>team\<close> field; the client's operations are fields of \<open>env\<close> below.
\<close>

record SlackClient =
  team :: string

text \<open>
  \<open>formattedMessage\<close>: the field \<open>timestamp\<close> is a \<open>time.Time\<close> built by
  \<open>time.Unix(sec, 0)\<close>, so it is modelled by its whole number of seconds.
  The fields \<open>text\<close> and \<open>id\<close> carry a prime because the plain names are taken.
\<close>

record formattedMessage =
  text' :: string
  timestamp :: int
  id' :: string

text \<open>
  The two widgets of the bubbles library. Only what main.go reads and writes is kept:
  the value, the width and the character limit of the text input, and the size, content
  and scroll position (only whether \<open>GotoBottom\<close> was the last scroll) of the
  viewport.
\<close>

record textinput =
  Value :: string
  Width :: int
  CharLimit :: int

record viewport_model =
  vpWidth :: int
  vpHeight :: int
  content :: string
  atBottom :: bool

record model =
  client :: SlackClient
  channelID :: string
  channelName :: string
  messages :: "formattedMessage list"
  messageIDs :: "string set"
  input :: textinput
  viewport :: viewport_model
  err :: "error option"
  ready :: bool
  lastFetched :: string
  history :: "string list"
  historyIndex :: int
  historyFile :: string
  browsingHist :: bool
  refreshCount :: int
  needsRedraw :: bool

text \<open>
  \<open>messageIDs\<close> is a \<open>map[string]bool\<close> in which only \<open>true\<close> is ever stored, and
  a lookup of a missing key gives \<open>false\<close>: it is the set of its keys.
\<close>

subsection \<open>Events and commands\<close>

datatype keyType = KeyEsc | KeyCtrlC | KeyEnter | KeyUp | KeyDown | KeyRunes string

text \<open>
  A \<open>fetchMessagesMsg\<close> carries a slice, which in Go is either \<open>nil\<close> (\<open>None\<close>) or a
  possibly empty sequence (\<open>Some\<close>); main.go tells the two apart.
\<close>

datatype msg =
    KeyMsg keyType
  | WindowSizeMsg int int
  | redrawViewportMsg
  | tickMsg
  | fetchMessagesMsg "Message list option" "error option"
  | sendMessageMsg "error option"
  | otherMsg nat

text \<open>
  A \<open>tea.Cmd\<close> is modelled by what it will do. \<open>refreshTick\<close> is the command
  \<open>tea.Tick(500ms, ...)\<close> of the Enter branch, which delivers
  \<open>fetchMessagesMsg{nil, nil}\<close>. A \<open>nil\<close> command is \<open>None\<close>.
\<close>

datatype cmd =
    Quit
  | EnterAltScreen
  | Blink
  | tick
  | fetchMessages string string
  | sendMessage string string
  | refreshTick
  | redrawViewport
  | widgetCmd nat
  | Sequence "cmd list"
  | Batch "cmd option list"

text \<open>\<open>tea.Batch\<close> runs every command of its list that is not \<open>nil\<close>.\<close>

fun launched :: "cmd \<Rightarrow> cmd list" where
  "launched (Batch cs) = concat (map (\<lambda>c. case c of None \<Rightarrow> [] | Some d \<Rightarrow> launched d) cs)"
| "launched c = [c]"

definition launchedBy :: "cmd option \<Rightarrow> cmd list" where
  "launchedBy c = (case c of None \<Rightarrow> [] | Some d \<Rightarrow> launched d)"

subsection \<open>External collaborators\<close>

text \<open>
  Everything main.go calls outside itself is a field of the environment:
  \<^item> \<open>UsernameForMessage\<close>, \<open>ChannelInfo\<close>: operations of the client;
  \<^item> \<open>unixSeconds id\<close>: \<open>int64(ts)\<close> for \<open>ts, _ := strconv.ParseFloat(id, 64)\<close>;
  \<^item> \<open>formatLine\<close>: the \<open>fmt.Sprintf\<close> of the styled time, user name and text;
  \<^item> \<open>sortSlice\<close>: \<open>sort.Slice\<close>, given the \<open>less\<close> function;
  \<^item> \<open>UserHomeDir\<close>, \<open>MkdirAll\<close>, \<open>readLines\<close>, \<open>OpenFile\<close>, \<open>WriteString\<close>:
    the file system (the outcome of each call);
  \<^item> \<open>inputUpdate\<close>, \<open>viewportUpdate\<close>: the \<open>Update\<close> methods of the two widgets.
\<close>

record env =
  ChannelInfo :: "string \<Rightarrow> error + string"
  UsernameForMessage :: "Message \<Rightarrow> error + string"
  unixSeconds :: "string \<Rightarrow> int"
  formatLine :: "int \<Rightarrow> string \<Rightarrow> string \<Rightarrow> string"
  sortSlice :: "(formattedMessage \<Rightarrow> formattedMessage \<Rightarrow> bool) \<Rightarrow>
                formattedMessage list \<Rightarrow> formattedMessage list"
  UserHomeDir :: "error + string"
  MkdirAll :: "string \<Rightarrow> error option"
  readLines :: "string \<Rightarrow> string list option"
  OpenFile :: "string \<Rightarrow> error option"
  WriteString :: "string \<Rightarrow> string \<Rightarrow> error option"
  inputUpdate :: "msg \<Rightarrow> textinput \<Rightarrow> textinput \<times> cmd option"
  viewportUpdate :: "msg \<Rightarrow> viewport_model \<Rightarrow> viewport_model \<times> cmd option"

subsection \<open>Library functions with a fixed meaning\<close>

text \<open>
  \<open>unicode.IsSpace\<close> on the characters a \<open>char\<close> can hold (up to U+00FF):
  tab, line feed, vertical tab, form feed, carriage return, space, U+0085, U+00A0.
\<close>

definition isSpace :: "char \<Rightarrow> bool" where
  "isSpace c = (c \<in> set [CHR 0x09, CHR 0x0A, CHR 0x0B, CHR 0x0C, CHR 0x0D, CHR 0x20,
                         CHR 0x85, CHR 0xA0])"

definition TrimSpace :: "string \<Rightarrow> string" where
  "TrimSpace s = rev (dropWhile isSpace (rev (dropWhile isSpace s)))"

text \<open>
  The widget operations main.go calls, as the text input of the bubbles library has
  them. \<open>SetValue\<close> first cleans its argument with the widget's sanitiser, which is
  set up to replace a tab by one space and a carriage return or a line feed by one
  space, and which drops every other control character (\<open>unicode.IsControl\<close>: U+0000
  to U+001F and U+007F to U+009F); it then cuts the result to \<open>CharLimit\<close> characters
  when the limit is positive. \<open>Reset\<close> empties the value. \<open>textinput.New\<close> gives
  a widget with width 0 and no limit; \<open>initialModel\<close> sets both.
\<close>

definition IsControl :: "char \<Rightarrow> bool" where
  "IsControl c = ((of_char c :: nat) \<le> 0x1F \<or> (0x7F \<le> (of_char c :: nat) \<and> (of_char c :: nat) \<le> 0x9F))"

definition Sanitize :: "string \<Rightarrow> string" where
  "Sanitize runes =
     concat (map (\<lambda>r. if r = CHR 0x0D \<or> r = CHR 0x0A then '' ''
                      else if r = CHR 0x09 then '' ''
                      else if IsControl r then []
                      else [r]) runes)"

definition SetValue :: "string \<Rightarrow> textinput \<Rightarrow> textinput" where
  "SetValue s ti =
     (let runes = Sanitize s
      in if CharLimit ti > 0 \<and> int (length runes) > CharLimit ti
         then ti\<lparr>Value := take (nat (CharLimit ti)) runes\<rparr>
         else ti\<lparr>Value := runes\<rparr>)"

definition Reset :: "textinput \<Rightarrow> textinput" where
  "Reset ti = ti\<lparr>Value := []\<rparr>"

definition textinput_New :: textinput where
  "textinput_New = \<lparr>Value = [], Width = 0, CharLimit = 0\<rparr>"

definition viewport_New :: "int \<Rightarrow> int \<Rightarrow> viewport_model" where
  "viewport_New w h = \<lparr>vpWidth = w, vpHeight = h, content = [], atBottom = False\<rparr>"

definition SetContent :: "string \<Rightarrow> viewport_model \<Rightarrow> viewport_model" where
  "SetContent s vp = vp\<lparr>content := s\<rparr>"

definition GotoBottom :: "viewport_model \<Rightarrow> viewport_model" where
  "GotoBottom vp = vp\<lparr>atBottom := True\<rparr>"

text \<open>\<open>time.Time.Before\<close> on instants with whole seconds.\<close>

definition time_Before :: "formattedMessage \<Rightarrow> formattedMessage \<Rightarrow> bool" where
  "time_Before a b = (timestamp a < timestamp b)"

section \<open>The functions of main.go\<close>

text \<open>
  \<open>initialModel\<close>. \<open>filepath.Join\<close> of a directory and a name is the two joined by
  a slash; the history file is read through \<open>readLines\<close>, which is \<open>None\<close> when the
  file is missing or cannot be opened.
\<close>

definition initialModel :: "env \<Rightarrow> SlackClient \<Rightarrow> string \<Rightarrow> error + model" where
  "initialModel e cl chan =
    (let channelName' = (case ChannelInfo e chan of Inl _ \<Rightarrow> chan | Inr n \<Rightarrow> n);
         ti = textinput_New\<lparr>Width := 30, CharLimit := 4000\<rparr>;
         vp = SetContent [] (viewport_New 30 10)
     in case UserHomeDir e of
          Inl x \<Rightarrow> Inl x
        | Inr homeDir \<Rightarrow>
            (let historyDir = homeDir @ ''/'' @ ''.slack-chat-history''
             in case MkdirAll e historyDir of
                  Some x \<Rightarrow> Inl x
                | None \<Rightarrow>
                    (let historyFile' = historyDir @ ''/'' @ team cl @ ''-'' @ chan @ ''.history'';
                         history' = (case readLines e historyFile' of None \<Rightarrow> [] | Some ls \<Rightarrow> ls)
                     in Inr \<lparr>client = cl, channelID = chan, channelName = channelName',
                             messages = [], messageIDs = {}, input = ti, viewport = vp,
                             err = None, ready = False, lastFetched = [],
                             history = history', historyIndex = int (length history'),
                             historyFile = historyFile', browsingHist = False,
                             refreshCount = 0, needsRedraw = False\<rparr>)))"

definition Init :: "model \<Rightarrow> cmd option" where
  "Init m = Some (Batch [Some EnterAltScreen,
                         Some (fetchMessages (channelID m) (lastFetched m)),
                         Some Blink, Some tick])"

text \<open>
  \<open>appendToHistory\<close> returns the updated model (the receiver is a pointer) and the
  error. The file is opened, then written; either step can fail.
\<close>

definition appendToHistory :: "env \<Rightarrow> string \<Rightarrow> model \<Rightarrow> model \<times> error option" where
  "appendToHistory e message m =
    (if TrimSpace message = [] then (m, None)
     else if length (history m) > 0 \<and> history m ! (length (history m) - 1) = message
          then (m, None)
     else
       (let m1 = m\<lparr>history := history m @ [message]\<rparr>;
            m2 = m1\<lparr>historyIndex := int (length (history m1))\<rparr>
        in case OpenFile e (historyFile m2) of
             Some x \<Rightarrow> (m2, Some x)
           | None \<Rightarrow> (m2, WriteString e (historyFile m2) (message @ [CHR 0x0A]))))"

text \<open>
  \<open>navigateHistory\<close>. The read \<open>m.history[m.historyIndex]\<close> is in range wherever it
  is reached: the index has been clamped to \<open>[0, len]\<close> and differs from \<open>len\<close>
  (lemma \<open>navigateHistory_read_in_range\<close> below). \<open>historyIndex\<close> is a Go
  \<open>int\<close>, modelled as an integer: the properties below are about cursors in
  \<open>[0, len]\<close>, where the sum with \<open>-1\<close> or \<open>+1\<close> does not overflow.
\<close>

definition clampIndex :: "int \<Rightarrow> int \<Rightarrow> int" where
  "clampIndex newIndex len =
     (if newIndex < 0 then 0 else if newIndex > len then len else newIndex)"

definition navigateHistory :: "int \<Rightarrow> model \<Rightarrow> model" where
  "navigateHistory direction m =
    (let newIndex = clampIndex (historyIndex m + direction) (int (length (history m)))
     in if newIndex \<noteq> historyIndex m then
          (let m1 = m\<lparr>historyIndex := newIndex\<rparr>;
               m2 = (if historyIndex m1 = int (length (history m1))
                     then m1\<lparr>input := SetValue [] (input m1)\<rparr>
                     else if length (history m1) > 0
                     then m1\<lparr>input := SetValue (history m1 ! nat (historyIndex m1)) (input m1)\<rparr>
                     else m1)
           in m2\<lparr>browsingHist := (historyIndex m2 < int (length (history m2)))\<rparr>)
        else m)"

definition updateViewportContent :: "model \<Rightarrow> model" where
  "updateViewportContent m =
     m\<lparr>viewport := GotoBottom (SetContent
          (concat (map (\<lambda>msg. text' msg @ [CHR 0x0A]) (messages m))) (viewport m))\<rparr>"

text \<open>
  The loop over the fetched messages, carrying the model and \<open>messagesAdded\<close>.
\<close>

fun processMessages :: "env \<Rightarrow> Message list \<Rightarrow> model \<times> bool \<Rightarrow> model \<times> bool" where
  "processMessages e [] (m, messagesAdded) = (m, messagesAdded)"
| "processMessages e (message # rest) (m, messagesAdded) =
    (if Ts message \<in> messageIDs m then processMessages e rest (m, messagesAdded)
     else
       (let ts = unixSeconds e (Ts message);
            username = (case UsernameForMessage e message of
                          Inl _ \<Rightarrow> ''unknown'' | Inr u \<Rightarrow> u);
            formattedText = formatLine e ts username (Text message);
            m1 = m\<lparr>messages := messages m @
                   [\<lparr>text' = formattedText, timestamp = ts, id' = Ts message\<rparr>]\<rparr>;
            m2 = m1\<lparr>messageIDs := insert (Ts message) (messageIDs m1)\<rparr>
        in processMessages e rest (m2, True)))"

text \<open>
  The end of \<open>Update\<close>: the event goes to both widgets, and their commands are
  batched after the ones collected so far.
\<close>

definition updateWidgets :: "env \<Rightarrow> msg \<Rightarrow> cmd option list \<Rightarrow> model \<Rightarrow> model \<times> cmd option" where
  "updateWidgets e ev cmds m =
    (let (i, tiCmd) = inputUpdate e ev (input m);
         m1 = m\<lparr>input := i\<rparr>;
         (v, vpCmd) = viewportUpdate e ev (viewport m1);
         m2 = m1\<lparr>viewport := v\<rparr>
     in (m2, Some (Batch (cmds @ [tiCmd, vpCmd]))))"

definition handleFetched :: "env \<Rightarrow> Message list \<Rightarrow> model \<Rightarrow> model" where
  "handleFetched e ms m =
    (if length ms > 0 then
       (let (m1, messagesAdded) = processMessages e ms (m, False)
        in if messagesAdded then
             (let m2 = m1\<lparr>messages := sortSlice e time_Before (messages m1)\<rparr>;
                  m3 = (if length ms > 0 then m2\<lparr>lastFetched := Ts (ms ! 0)\<rparr> else m2)
              in updateViewportContent m3)
           else m1)
     else m)"

definition Update :: "env \<Rightarrow> msg \<Rightarrow> model \<Rightarrow> model \<times> cmd option" where
  "Update e ev m =
    (case ev of
       KeyMsg k \<Rightarrow>
         (case k of
            KeyEsc \<Rightarrow> (m, Some Quit)
          | KeyCtrlC \<Rightarrow> (m, Some Quit)
          | KeyEnter \<Rightarrow>
              (if TrimSpace (Value (input m)) \<noteq> [] then
                 (let txt = Value (input m);
                      (m1, er) = appendToHistory e txt m;
                      m2 = (case er of Some x \<Rightarrow> m1\<lparr>err := Some x\<rparr> | None \<Rightarrow> m1);
                      cmds = [Some (Sequence [sendMessage (channelID m2) txt, refreshTick])];
                      m3 = m2\<lparr>input := Reset (input m2)\<rparr>;
                      m4 = m3\<lparr>browsingHist := False\<rparr>
                  in updateWidgets e ev cmds m4)
               else updateWidgets e ev [] m)
          | KeyUp \<Rightarrow> (navigateHistory (- 1) m, None)
          | KeyDown \<Rightarrow> (navigateHistory 1 m, None)
          | KeyRunes _ \<Rightarrow> updateWidgets e ev [] m)
     | WindowSizeMsg width height \<Rightarrow>
         (let m1 = (if \<not> ready m then
                      m\<lparr>viewport := viewport_New width (height - 4),
                        input := (input m)\<lparr>Width := width - 4\<rparr>,
                        ready := True\<rparr>
                    else
                      m\<lparr>viewport := (viewport m)\<lparr>vpWidth := width, vpHeight := height - 4\<rparr>,
                        input := (input m)\<lparr>Width := width - 4\<rparr>\<rparr>)
          in updateWidgets e ev [] (updateViewportContent m1))
     | redrawViewportMsg \<Rightarrow> updateWidgets e ev [] (updateViewportContent m)
     | tickMsg \<Rightarrow>
         (let m1 = m\<lparr>refreshCount := refreshCount m + 1\<rparr>
          in (m1, Some (Batch [Some tick,
                               Some (fetchMessages (channelID m1) (lastFetched m1))])))
     | fetchMessagesMsg batch er \<Rightarrow>
         (case er of
            Some x \<Rightarrow> (m\<lparr>err := Some x\<rparr>, None)
          | None \<Rightarrow>
              (case batch of
                 None \<Rightarrow> (m, Some (fetchMessages (channelID m) []))
               | Some ms \<Rightarrow> updateWidgets e ev [] (handleFetched e ms m)))
     | sendMessageMsg er \<Rightarrow>
         (case er of
            Some x \<Rightarrow> (m\<lparr>err := Some x\<rparr>, None)
          | None \<Rightarrow> (m, Some (fetchMessages (channelID m) [])))
     | otherMsg _ \<Rightarrow> updateWidgets e ev [] m)"

text \<open>
  \<open>merge\<close>: the message store after a successful fetch of the batch \<open>B\<close> has been
  handled, that is, \<open>Update\<close> on \<open>fetchMessagesMsg{B, nil}\<close>.
\<close>

definition merge :: "env \<Rightarrow> Message list \<Rightarrow> model \<Rightarrow> model" where
  "merge e B m = fst (Update e (fetchMessagesMsg (Some B) None) m)"

section \<open>Notions used to state the properties\<close>

text \<open>
  The formatted messages that the loop of the fetch branch appends for a batch, given
  the ids stored so far: one for each message whose id has not been seen, in batch order.
\<close>

fun appended :: "env \<Rightarrow> Message list \<Rightarrow> string set \<Rightarrow> formattedMessage list" where
  "appended e [] ids = []"
| "appended e (message # rest) ids =
    (if Ts message \<in> ids then appended e rest ids
     else \<lparr>text' = formatLine e (unixSeconds e (Ts message))
                       (case UsernameForMessage e message of Inl _ \<Rightarrow> ''unknown'' | Inr u \<Rightarrow> u)
                       (Text message),
           timestamp = unixSeconds e (Ts message), id' = Ts message\<rparr>
          # appended e rest (insert (Ts message) ids))"

text \<open>
  What \<open>sort.Slice\<close> promises for the \<open>less\<close> function of main.go: the slice is
  rearranged (same elements) so that no element is \<open>less\<close> than an earlier one.
  Its documentation promises no more: the sort is not guaranteed to be stable.
\<close>

definition sortSlice_ok :: "env \<Rightarrow> bool" where
  "sortSlice_ok e =
     (\<forall>xs. mset (sortSlice e time_Before xs) = mset xs \<and>
           sorted_wrt (\<lambda>a b. \<not> time_Before b a) (sortSlice e time_Before xs))"

definition ascending :: "formattedMessage list \<Rightarrow> bool" where
  "ascending xs = sorted (map timestamp xs)"



text \<open>The history cursor is a position of the log or the position past its end.\<close>

definition cursorInRange :: "model \<Rightarrow> bool" where
  "cursorInRange m = (0 \<le> historyIndex m \<and> historyIndex m \<le> int (length (history m)))"


text \<open>The widgets ignore an event: they return themselves and no command.\<close>

definition widgetsIgnore :: "env \<Rightarrow> msg \<Rightarrow> model \<Rightarrow> bool" where
  "widgetsIgnore e ev m =
     (inputUpdate e ev (input m) = (input m, None) \<and>
      viewportUpdate e ev (viewport m) = (viewport m, None))"

section \<open>Sample collaborators\<close>

text \<open>
  Two sorts that both keep the promise of \<open>sort.Slice\<close>. The first is an insertion
  sort that moves an element left past the strictly greater ones, which keeps ties in
  place; the second moves it left past the equal ones too, which reverses ties.
\<close>

fun insertAfterTies :: "('a \<Rightarrow> 'a \<Rightarrow> bool) \<Rightarrow> 'a \<Rightarrow> 'a list \<Rightarrow> 'a list" where
  "insertAfterTies lt x [] = [x]"
| "insertAfterTies lt x (y # ys) =
     (if lt x y then x # y # ys else y # insertAfterTies lt x ys)"

definition insertionSort :: "('a \<Rightarrow> 'a \<Rightarrow> bool) \<Rightarrow> 'a list \<Rightarrow> 'a list" where
  "insertionSort lt xs = foldl (\<lambda>acc x. insertAfterTies lt x acc) [] xs"



text \<open>
  A sample reading of an id: the decimal digits before the first other character,
  which is the whole number of seconds of an id such as \<open>100.25\<close>.
\<close>

definition isDigit :: "char \<Rightarrow> bool" where
  "isDigit c = (48 \<le> (of_char c :: nat) \<and> (of_char c :: nat) \<le> 57)"

definition wholeSeconds :: "string \<Rightarrow> int" where
  "wholeSeconds s =
     foldl (\<lambda>n c. 10 * n + (int (of_char c) - 48)) 0 (takeWhile isDigit s)"

text \<open>
  A sample text input: typed characters are added at the end of the value, every other
  event is ignored. The sample viewport ignores every event.
\<close>

definition typingInput :: "msg \<Rightarrow> textinput \<Rightarrow> textinput \<times> cmd option" where
  "typingInput ev ti =
     (case ev of
        KeyMsg (KeyRunes s) \<Rightarrow> (ti\<lparr>Value := Value ti @ s\<rparr>, None)
      | _ \<Rightarrow> (ti, None))"

definition sampleEnv :: env where
  "sampleEnv =
     \<lparr>ChannelInfo = (\<lambda>c. Inr ''general''),
      UsernameForMessage = (\<lambda>m. Inr (User m)),
      unixSeconds = wholeSeconds,
      formatLine = (\<lambda>t u b. u @ '': '' @ b),
      sortSlice = insertionSort,
      UserHomeDir = Inr ''/home/u'',
      MkdirAll = (\<lambda>d. None),
      readLines = (\<lambda>f. None),
      OpenFile = (\<lambda>f. None),
      WriteString = (\<lambda>f s. None),
      inputUpdate = typingInput,
      viewportUpdate = (\<lambda>ev vp. (vp, None))\<rparr>"


definition readOnlyDiskEnv :: env where
  "readOnlyDiskEnv = sampleEnv\<lparr>OpenFile := (\<lambda>f. Some (Error ''read-only file system''))\<rparr>"

definition fullDiskEnv :: env where
  "fullDiskEnv = sampleEnv\<lparr>WriteString := (\<lambda>f s. Some (Error ''no space left on device''))\<rparr>"

definition sampleClient :: SlackClient where
  "sampleClient = \<lparr>team = ''acme''\<rparr>"

definition sampleModel :: model where
  "sampleModel =
     \<lparr>client = sampleClient, channelID = ''C1'', channelName = ''general'',
      messages = [], messageIDs = {}, input = \<lparr>Value = [], Width = 30, CharLimit = 4000\<rparr>,
      viewport = \<lparr>vpWidth = 30, vpHeight = 10, content = [], atBottom = False\<rparr>,
      err = None, ready = False, lastFetched = [],
      history = [], historyIndex = 0,
      historyFile = ''/home/u/.slack-chat-history/acme-C1.history'',
      browsingHist = False, refreshCount = 0, needsRedraw = False\<rparr>"

definition hiModel :: model where
  "hiModel = sampleModel\<lparr>history := [''hi''], historyIndex := 1\<rparr>"

definition msgA :: Message where
  "msgA = \<lparr>Ts = ''100.1'', Text = ''first'', User = ''ann''\<rparr>"

definition msgB :: Message where
  "msgB = \<lparr>Ts = ''100.2'', Text = ''second'', User = ''bob''\<rparr>"

definition msgC :: Message where
  "msgC = \<lparr>Ts = ''101.0'', Text = ''third'', User = ''cat''\<rparr>"

text \<open>A run of the session: the events are handled one after the other.\<close>

definition run :: "env \<Rightarrow> msg list \<Rightarrow> model \<Rightarrow> model" where
  "run e evs m = foldl (\<lambda>s ev. fst (Update e ev s)) m evs"

text \<open>
  A session whose history file holds one line with a tab in it, and its first model.
\<close>

definition tabFileEnv :: env where
  "tabFileEnv = sampleEnv\<lparr>readLines := (\<lambda>f. Some [[CHR ''a'', CHR 0x09, CHR ''b'']])\<rparr>"

definition tabModel :: model where
  "tabModel = sampleModel\<lparr>history := [[CHR ''a'', CHR 0x09, CHR ''b'']], historyIndex := 1\<rparr>"


text \<open>The session after \<open>hello\<close> has been typed.\<close>

definition helloModel :: model where
  "helloModel = run sampleEnv [KeyMsg (KeyRunes ''hello'')] sampleModel"

text \<open>The session after \<open>hi\<close> has been typed and sent and the Up key pressed.\<close>

definition browsingModel :: model where
  "browsingModel =
     run sampleEnv [KeyMsg (KeyRunes ''hi''), KeyMsg KeyEnter, KeyMsg KeyUp] sampleModel"





section \<open>Properties\<close>

subsection \<open>The fetch branch, in closed form\<close>

lemma sampleModel_initial: "initialModel sampleEnv sampleClient ''C1'' = Inr sampleModel"
  by (simp add: initialModel_def sampleEnv_def sampleClient_def sampleModel_def
      textinput_New_def viewport_New_def SetContent_def)

lemma appended_Nil_iff: "appended e ms ids = [] \<longleftrightarrow> Ts ` set ms \<subseteq> ids"
  by (induction ms arbitrary: ids) auto

lemma processMessages_eq:
  "processMessages e ms (m, a) =
     (m\<lparr>messages := messages m @ appended e ms (messageIDs m),
        messageIDs := messageIDs m \<union> Ts ` set ms\<rparr>,
      a \<or> appended e ms (messageIDs m) \<noteq> [])"
proof (induction ms arbitrary: m a)
  case Nil
  then show ?case by simp
next
  case (Cons x xs)
  show ?case
  proof (cases "Ts x \<in> messageIDs m")
    case True
    then have "messageIDs m \<union> Ts ` set (x # xs) = messageIDs m \<union> Ts ` set xs"
      by auto
    with True Cons show ?thesis by simp
  next
    case False
    with Cons show ?thesis by (simp add: Let_def)
  qed
qed

lemma handleFetched_eq:
  "handleFetched e ms m =
     (if Ts ` set ms \<subseteq> messageIDs m then m
      else updateViewportContent
             (m\<lparr>messages := sortSlice e time_Before (messages m @ appended e ms (messageIDs m)),
                messageIDs := messageIDs m \<union> Ts ` set ms,
                lastFetched := Ts (ms ! 0)\<rparr>))"
proof (cases "Ts ` set ms \<subseteq> messageIDs m")
  case True
  then have "appended e ms (messageIDs m) = []" by (simp add: appended_Nil_iff)
  moreover from True have "messageIDs m \<union> Ts ` set ms = messageIDs m" by auto
  ultimately show ?thesis using True
    by (simp add: handleFetched_def processMessages_eq)
next
  case False
  then have ne: "appended e ms (messageIDs m) \<noteq> []" by (simp add: appended_Nil_iff)
  from False have "ms \<noteq> []" by auto
  with ne False show ?thesis
    by (cases m) (simp add: handleFetched_def processMessages_eq Let_def)
qed

lemma updateWidgets_fields:
  "messages (fst (updateWidgets e ev c m)) = messages m"
  "messageIDs (fst (updateWidgets e ev c m)) = messageIDs m"
  "lastFetched (fst (updateWidgets e ev c m)) = lastFetched m"
  "history (fst (updateWidgets e ev c m)) = history m"
  "historyIndex (fst (updateWidgets e ev c m)) = historyIndex m"
  "browsingHist (fst (updateWidgets e ev c m)) = browsingHist m"
  "err (fst (updateWidgets e ev c m)) = err m"
  "input (fst (updateWidgets e ev c m)) = fst (inputUpdate e ev (input m))"
  by (simp_all add: updateWidgets_def split_def Let_def)

lemma updateWidgets_cmd:
  "snd (updateWidgets e ev c m) =
     Some (Batch (c @ [snd (inputUpdate e ev (input m)), snd (viewportUpdate e ev (viewport m))]))"
  by (simp add: updateWidgets_def split_def Let_def)

lemma updateWidgets_ignore:
  "widgetsIgnore e ev m \<Longrightarrow> updateWidgets e ev c m = (m, Some (Batch (c @ [None, None])))"
  by (simp add: updateWidgets_def widgetsIgnore_def)

lemma updateViewportContent_fields:
  "messages (updateViewportContent m) = messages m"
  "messageIDs (updateViewportContent m) = messageIDs m"
  "lastFetched (updateViewportContent m) = lastFetched m"
  by (simp_all add: updateViewportContent_def)

lemma merge_fields:
  "messages (merge e B m) = messages (handleFetched e B m)"
  "messageIDs (merge e B m) = messageIDs (handleFetched e B m)"
  "lastFetched (merge e B m) = lastFetched (handleFetched e B m)"
  by (simp_all add: merge_def Update_def updateWidgets_fields)

lemma handleFetched_ids: "Ts ` set B \<subseteq> messageIDs (handleFetched e B m)"
  by (auto simp: handleFetched_eq updateViewportContent_fields)

lemma handleFetched_again:
  "Ts ` set B \<subseteq> messageIDs m \<Longrightarrow> handleFetched e B m = m"
  by (simp add: handleFetched_eq)

lemma not_Before_iff: "sorted_wrt (\<lambda>a b. \<not> time_Before b a) xs = ascending xs"
  by (simp add: ascending_def time_Before_def sorted_map not_less)

lemma ascending_Nil: "ascending []"
  by (simp add: ascending_def)

lemma set_insertAfterTies: "set (insertAfterTies lt x ys) = insert x (set ys)"
  by (induction ys) auto

lemma mset_insertAfterTies: "mset (insertAfterTies lt x ys) = add_mset x (mset ys)"
  by (induction ys) auto

lemma ascending_insertAfterTies:
  "ascending ys \<Longrightarrow> ascending (insertAfterTies time_Before x ys)"
  by (induction ys) (auto simp: ascending_def time_Before_def set_insertAfterTies)




lemma insertionSort_foldl:
  "mset (foldl (\<lambda>acc x. insertAfterTies lt x acc) acc xs) = mset acc + mset xs"
  by (induction xs arbitrary: acc) (auto simp: mset_insertAfterTies)

lemma insertionSort_ascending:
  "ascending acc \<Longrightarrow> ascending (foldl (\<lambda>acc x. insertAfterTies time_Before x acc) acc xs)"
  by (induction xs arbitrary: acc) (auto simp: ascending_insertAfterTies)



lemma sampleEnv_ok: "sortSlice_ok sampleEnv"
  unfolding sortSlice_ok_def not_Before_iff
  by (simp add: sampleEnv_def insertionSort_def insertionSort_foldl insertionSort_ascending
      ascending_Nil)


lemma merge_messages:
  "messages (merge e B m) =
     (if Ts ` set B \<subseteq> messageIDs m then messages m
      else sortSlice e time_Before (messages m @ appended e B (messageIDs m)))"
  by (simp add: merge_fields handleFetched_eq updateViewportContent_fields)

lemma merge_lastFetched:
  "lastFetched (merge e B m) =
     (if Ts ` set B \<subseteq> messageIDs m then lastFetched m else Ts (B ! 0))"
  by (simp add: merge_fields handleFetched_eq updateViewportContent_fields)

lemma merge_keeps_ascending:
  assumes "sortSlice_ok e" "ascending (messages m)"
  shows "ascending (messages (merge e B m))"
  using assms by (simp add: merge_messages sortSlice_ok_def not_Before_iff)

subsection \<open>Merging a batch twice\<close>

text \<open>
  Claim C4. Merging is idempotent: for every store and every batch \<open>B\<close>, merging \<open>B\<close>
  a second time leaves the message sequence, the set of seen ids and the sync cursor
  as the first merge left them. (After the first merge every id of \<open>B\<close> is seen, so
  the second adds nothing, sorts nothing and does not touch the cursor.)
\<close>

theorem merge_idempotent:
  "messages (merge e B (merge e B m)) = messages (merge e B m) \<and>
   messageIDs (merge e B (merge e B m)) = messageIDs (merge e B m) \<and>
   lastFetched (merge e B (merge e B m)) = lastFetched (merge e B m)"
proof -
  have "Ts ` set B \<subseteq> messageIDs (merge e B m)"
    by (simp add: merge_fields handleFetched_ids)
  then have "handleFetched e B (merge e B m) = merge e B m"
    by (rule handleFetched_again)
  then show ?thesis by (simp add: merge_fields)
qed

subsection \<open>The sort invariant\<close>

text \<open>
  Claim C5. After every sequence of merges that starts from the empty store, the
  message sequence is non-decreasing by timestamp, given that \<open>sort.Slice\<close> does
  what it promises.
\<close>

theorem merges_ascending:
  assumes "sortSlice_ok e" and "messages m0 = []"
  shows "ascending (messages (foldl (\<lambda>m B. merge e B m) m0 Bs))"
proof -
  have "ascending (messages m) \<Longrightarrow> ascending (messages (foldl (\<lambda>m B. merge e B m) m Bs))" for m
    by (induction Bs arbitrary: m) (simp_all add: merge_keeps_ascending [OF assms(1)])
  moreover have "ascending (messages m0)" using assms(2) by (simp add: ascending_def)
  ultimately show ?thesis by blast
qed

text \<open>The same at two overlapping batches that arrive newest first.\<close>

theorem merges_ascending_witness:
  "sortSlice_ok sampleEnv \<and> messages sampleModel = [] \<and>
   ascending (messages (foldl (\<lambda>m B. merge sampleEnv B m) sampleModel
                          [[msgC, msgA], [msgB, msgA]]))"
  using merges_ascending [of sampleEnv sampleModel "[[msgC, msgA], [msgB, msgA]]"] sampleEnv_ok
  by (simp add: sampleModel_def)

subsection \<open>Re-sorting on a merge\<close>






subsection \<open>The sync cursor\<close>

text \<open>
  Claim C2, as amended. For every successful fetch whose batch is not empty, the sync
  cursor \<open>lastFetched\<close> is set to the id of the first message of the batch if at least
  one message of the batch was not stored yet; if every message of the batch is already
  stored, the cursor is left as it was.
\<close>

theorem cursor_after_fetch:
  assumes "B \<noteq> []"
  shows "lastFetched (merge e B m) =
           (if Ts ` set B \<subseteq> messageIDs m then lastFetched m else Ts (B ! 0))"
  by (rule merge_lastFetched)

lemma seenBA: "lastFetched (merge sampleEnv [msgB, msgA] sampleModel) = ''100.2''"
  by code_simp
lemma seenBA_A: "lastFetched (merge sampleEnv [msgA] (merge sampleEnv [msgB, msgA] sampleModel)) = ''100.2''"
  by code_simp

text \<open>
  Claim C2 as stated fails on a wholly duplicate batch: after the batch of \<open>msgB\<close> and
  \<open>msgA\<close>, the batch of \<open>msgA\<close> alone leaves the cursor at the id of \<open>msgB\<close>.
\<close>

theorem cursor_duplicate_batch_counterexample:
  "[msgA] \<noteq> [] \<and>
   lastFetched (merge sampleEnv [msgA] (merge sampleEnv [msgB, msgA] sampleModel))
     \<noteq> Ts ([msgA] ! 0)"
proof -
  have "Ts msgA = ''100.1''" by (simp add: msgA_def)
  then show ?thesis by (simp add: seenBA_A)
qed

text \<open>Both cases of the amended claim, at the same two batches.\<close>

theorem cursor_after_fetch_witness:
  "[msgB, msgA] \<noteq> [] \<and>
   lastFetched (merge sampleEnv [msgB, msgA] sampleModel) = ''100.2'' \<and>
   [msgA] \<noteq> [] \<and>
   lastFetched (merge sampleEnv [msgA] (merge sampleEnv [msgB, msgA] sampleModel)) = ''100.2''"
  using cursor_after_fetch [of "[msgB, msgA]" sampleEnv sampleModel]
        cursor_after_fetch [of "[msgA]" sampleEnv "merge sampleEnv [msgB, msgA] sampleModel"]
  by (simp add: seenBA seenBA_A)

subsection \<open>A successful fetch with no messages\<close>

text \<open>
  Claim C3, as amended. A successful fetch completion whose batch is empty but not
  \<open>nil\<close> leaves the whole session state unchanged and launches no task, the two
  widgets ignoring the event. When the batch is \<open>nil\<close>, the state is unchanged as well,
  and a fetch of the most recent page is launched.
\<close>

theorem empty_batch_handling:
  "(widgetsIgnore e (fetchMessagesMsg (Some []) None) m \<longrightarrow>
      fst (Update e (fetchMessagesMsg (Some []) None) m) = m \<and>
      launchedBy (snd (Update e (fetchMessagesMsg (Some []) None) m)) = []) \<and>
   fst (Update e (fetchMessagesMsg None None) m) = m \<and>
   launchedBy (snd (Update e (fetchMessagesMsg None None) m)) = [fetchMessages (channelID m) []]"
  by (simp add: Update_def handleFetched_def updateWidgets_ignore launchedBy_def)

text \<open>The empty batch at the start of a session, with the sample widgets.\<close>

theorem empty_batch_handling_witness:
  "widgetsIgnore sampleEnv (fetchMessagesMsg (Some []) None) sampleModel \<and>
   fst (Update sampleEnv (fetchMessagesMsg (Some []) None) sampleModel) = sampleModel \<and>
   launchedBy (snd (Update sampleEnv (fetchMessagesMsg (Some []) None) sampleModel)) = []"
  using empty_batch_handling [of sampleEnv sampleModel]
  by (simp add: widgetsIgnore_def sampleEnv_def typingInput_def)

text \<open>
  Claim C3 as stated fails on the \<open>nil\<close> batch, which is empty and carries no error:
  handling it launches a fetch.
\<close>

theorem nil_batch_counterexample:
  "launchedBy (snd (Update sampleEnv (fetchMessagesMsg None None) sampleModel)) =
     [fetchMessages ''C1'' []]"
  by (simp add: Update_def launchedBy_def sampleModel_def)

subsection \<open>The history log\<close>

lemma TrimSpace_Nil_iff: "TrimSpace s = [] \<longleftrightarrow> (\<forall>c\<in>set s. isSpace c)"
proof -
  have "dropWhile isSpace (rev (dropWhile isSpace s)) = [] \<longleftrightarrow> dropWhile isSpace s = []"
  proof (cases "dropWhile isSpace s")
    case Nil
    then show ?thesis by (simp del: dropWhile_eq_Nil_conv)
  next
    case (Cons c cs)
    then have "\<not> isSpace c" using hd_dropWhile [of isSpace s] by auto
    moreover have "c \<in> set (rev (dropWhile isSpace s))" using Cons by simp
    ultimately have "dropWhile isSpace (rev (dropWhile isSpace s)) \<noteq> []"
      unfolding dropWhile_eq_Nil_conv by blast
    with Cons show ?thesis by simp
  qed
  then have "TrimSpace s = [] \<longleftrightarrow> dropWhile isSpace s = []"
    by (simp add: TrimSpace_def)
  then show ?thesis by (simp only: dropWhile_eq_Nil_conv)
qed

lemma last_conv_index: "xs \<noteq> [] \<Longrightarrow> xs ! (length xs - Suc 0) = last xs"
  by (simp add: last_conv_nth)

lemma appendToHistory_rejects:
  "TrimSpace s = [] \<or> (history m \<noteq> [] \<and> last (history m) = s) \<Longrightarrow>
   appendToHistory e s m = (m, None)"
  by (auto simp: appendToHistory_def last_conv_index)

lemma appendToHistory_accepts:
  assumes "TrimSpace s \<noteq> []" and "\<not> (history m \<noteq> [] \<and> last (history m) = s)"
  shows "fst (appendToHistory e s m) =
           m\<lparr>history := history m @ [s], historyIndex := int (length (history m)) + 1\<rparr>"
    and "snd (appendToHistory e s m) =
           (case OpenFile e (historyFile m) of
              Some x \<Rightarrow> Some x
            | None \<Rightarrow> WriteString e (historyFile m) (s @ [CHR 0x0A]))"
  using assms by (auto simp: appendToHistory_def last_conv_index Let_def split: option.splits)

text \<open>
  Claim C6. Submitting a blank or whitespace-only string to the history log appends
  nothing, and so does submitting the text of the current last entry: the model comes
  back unchanged and without an error. Every other submission appends exactly one
  entry, the submitted text, and sets the cursor to the new length.
\<close>

theorem appendToHistory_cases:
  "(list_all isSpace s \<longrightarrow> appendToHistory e s m = (m, None)) \<and>
   (history m \<noteq> [] \<and> last (history m) = s \<longrightarrow> appendToHistory e s m = (m, None)) \<and>
   (\<not> list_all isSpace s \<and> \<not> (history m \<noteq> [] \<and> last (history m) = s) \<longrightarrow>
      history (fst (appendToHistory e s m)) = history m @ [s] \<and>
      historyIndex (fst (appendToHistory e s m)) =
        int (length (history (fst (appendToHistory e s m)))))"
proof (intro conjI impI)
  assume "list_all isSpace s"
  then show "appendToHistory e s m = (m, None)"
    by (simp add: appendToHistory_rejects TrimSpace_Nil_iff list_all_iff)
next
  assume "history m \<noteq> [] \<and> last (history m) = s"
  then show "appendToHistory e s m = (m, None)"
    by (simp add: appendToHistory_rejects)
next
  assume a: "\<not> list_all isSpace s \<and> \<not> (history m \<noteq> [] \<and> last (history m) = s)"
  then have t: "TrimSpace s \<noteq> []" by (simp add: TrimSpace_Nil_iff list_all_iff)
  from a have d: "\<not> (history m \<noteq> [] \<and> last (history m) = s)" by simp
  show "history (fst (appendToHistory e s m)) = history m @ [s]"
    by (simp add: appendToHistory_accepts(1) [OF t d])
  show "historyIndex (fst (appendToHistory e s m)) =
        int (length (history (fst (appendToHistory e s m))))"
    by (simp add: appendToHistory_accepts(1) [OF t d])
qed

text \<open>
  At a log that holds \<open>hi\<close>: three blanks, the empty string and \<open>hi\<close> are rejected,
  \<open>yo\<close> is appended.
\<close>

theorem appendToHistory_cases_witness:
  "list_all isSpace ''   '' \<and>
   appendToHistory sampleEnv ''   '' hiModel = (hiModel, None) \<and>
   appendToHistory sampleEnv [] hiModel = (hiModel, None) \<and>
   history hiModel \<noteq> [] \<and> last (history hiModel) = ''hi'' \<and>
   appendToHistory sampleEnv ''hi'' hiModel = (hiModel, None) \<and>
   \<not> list_all isSpace ''yo'' \<and> \<not> (history hiModel \<noteq> [] \<and> last (history hiModel) = ''yo'') \<and>
   history (fst (appendToHistory sampleEnv ''yo'' hiModel)) = [''hi'', ''yo''] \<and>
   historyIndex (fst (appendToHistory sampleEnv ''yo'' hiModel)) = 2"
  using appendToHistory_cases [of "''   ''" sampleEnv hiModel]
        appendToHistory_cases [of "[]" sampleEnv hiModel]
        appendToHistory_cases [of "''hi''" sampleEnv hiModel]
        appendToHistory_cases [of "''yo''" sampleEnv hiModel]
  by (simp add: isSpace_def hiModel_def sampleModel_def)

subsection \<open>Navigating the history\<close>

lemma clampIndex_range: "0 \<le> clampIndex i (int n) \<and> clampIndex i (int n) \<le> int n"
  by (simp add: clampIndex_def)

lemma navigateHistory_history: "history (navigateHistory d m) = history m"
  by (simp add: navigateHistory_def Let_def)

lemma navigateHistory_index:
  "historyIndex (navigateHistory d m) =
     clampIndex (historyIndex m + d) (int (length (history m)))"
  by (simp add: navigateHistory_def Let_def)





lemma SetValue_Nil: "Value (SetValue [] ti) = []"
  by (simp add: SetValue_def Sanitize_def Let_def)

lemma navigateHistory_text:
  assumes "historyIndex (navigateHistory d m) \<noteq> historyIndex m"
  shows "Value (input (navigateHistory d m)) =
           (if historyIndex (navigateHistory d m) = int (length (history m)) then []
            else Value (SetValue (history m ! nat (historyIndex (navigateHistory d m)))
                         (input m)))"
    and "browsingHist (navigateHistory d m) =
           (historyIndex (navigateHistory d m) < int (length (history m)))"
proof -
  let ?n = "clampIndex (historyIndex m + d) (int (length (history m)))"
  from assms have ne: "?n \<noteq> historyIndex m" by (simp add: navigateHistory_index)
  have r: "0 \<le> ?n" "?n \<le> int (length (history m))"
    using clampIndex_range [of "historyIndex m + d" "length (history m)"] by simp_all
  show "Value (input (navigateHistory d m)) =
           (if historyIndex (navigateHistory d m) = int (length (history m)) then []
            else Value (SetValue (history m ! nat (historyIndex (navigateHistory d m)))
                         (input m)))"
  proof (cases "?n = int (length (history m))")
    case True
    with ne show ?thesis
      by (simp add: navigateHistory_def Let_def SetValue_Nil)
  next
    case False
    with r have "history m \<noteq> []" by auto
    with ne False show ?thesis
      by (simp add: navigateHistory_def Let_def)
  qed
  show "browsingHist (navigateHistory d m) =
           (historyIndex (navigateHistory d m) < int (length (history m)))"
    using ne by (simp add: navigateHistory_def Let_def)
qed






text \<open>
  Claim C7 as stated fails on an entry with a tab. The history file holds the line
  \<open>a<TAB>b\<close>; the session starts with this entry and the cursor at 1, and the Up key
  moves the cursor to 0, which is not \<open>len\<close>, and shows \<open>a b\<close>, which is not the
  entry.
\<close>

theorem navigate_tab_counterexample:
  "initialModel tabFileEnv sampleClient ''C1'' = Inr tabModel \<and>
   historyIndex (fst (Update tabFileEnv (KeyMsg KeyUp) tabModel)) = 0 \<and>
   int (length (history (fst (Update tabFileEnv (KeyMsg KeyUp) tabModel)))) = 1 \<and>
   Value (input (fst (Update tabFileEnv (KeyMsg KeyUp) tabModel))) = ''a b'' \<and>
   Value (input (fst (Update tabFileEnv (KeyMsg KeyUp) tabModel)))
     \<noteq> history tabModel ! 0"
proof -
  have i: "initialModel tabFileEnv sampleClient ''C1'' = Inr tabModel"
    by (simp add: initialModel_def tabFileEnv_def sampleEnv_def sampleClient_def tabModel_def
        sampleModel_def textinput_New_def viewport_New_def SetContent_def)
  have u: "fst (Update tabFileEnv (KeyMsg KeyUp) tabModel) = navigateHistory (- 1) tabModel"
    by (simp add: Update_def)
  have h: "history tabModel = [[CHR ''a'', CHR 0x09, CHR ''b'']]"
    and c: "historyIndex tabModel = 1" and l: "CharLimit (input tabModel) = 4000"
    by (simp_all add: tabModel_def sampleModel_def)
  have x: "historyIndex (navigateHistory (- 1) tabModel) = 0"
    by (simp add: navigateHistory_index clampIndex_def h c)
  have s: "Sanitize [CHR ''a'', CHR 0x09, CHR ''b''] = ''a b''"
    by (simp add: Sanitize_def IsControl_def)
  have v: "Value (input (navigateHistory (- 1) tabModel)) = ''a b''"
    using navigateHistory_text(1) [of "- 1" tabModel]
    by (simp add: x h c l SetValue_def s Let_def)
  show ?thesis
    by (simp add: i u x v navigateHistory_history h)
qed

subsection \<open>Submitting the input\<close>

lemma launched_Cons_Some_Sequence:
  "Sequence cs \<in> set (launchedBy (Some (Batch (Some (Sequence cs) # rest))))"
  by (simp add: launchedBy_def)

lemma Update_Enter:
  assumes "TrimSpace (Value (input m)) \<noteq> []"
  shows "Update e (KeyMsg KeyEnter) m =
           updateWidgets e (KeyMsg KeyEnter)
             [Some (Sequence [sendMessage (channelID m) (Value (input m)), refreshTick])]
             ((case snd (appendToHistory e (Value (input m)) m) of
                 Some x \<Rightarrow> (fst (appendToHistory e (Value (input m)) m))\<lparr>err := Some x\<rparr>
               | None \<Rightarrow> fst (appendToHistory e (Value (input m)) m))
              \<lparr>input := Reset (input m), browsingHist := False\<rparr>)"
proof -
  have c: "channelID (fst (appendToHistory e s m)) = channelID m"
    and i: "input (fst (appendToHistory e s m)) = input m" for s
    by (simp_all add: appendToHistory_def Let_def split: option.splits)
  show ?thesis using assms
    by (simp add: Update_def split_def Let_def c i split: option.splits)
qed

text \<open>
  Claim C8. When the input is submitted, the history log accepts it and the write to
  the history file fails (the file cannot be opened, or the write itself fails), the
  error is stored in the session's error field, the entry stays in the in-memory
  history, and the sequence of the send and the delayed refresh for the submitted text
  is launched all the same.
\<close>

theorem history_write_failure:
  assumes "TrimSpace (Value (input m)) \<noteq> []"
    and "\<not> (history m \<noteq> [] \<and> last (history m) = Value (input m))"
    and "OpenFile e (historyFile m) = Some x \<or>
         (OpenFile e (historyFile m) = None \<and>
          WriteString e (historyFile m) (Value (input m) @ [CHR 0x0A]) = Some x)"
  shows "err (fst (Update e (KeyMsg KeyEnter) m)) = Some x \<and>
         history (fst (Update e (KeyMsg KeyEnter) m)) = history m @ [Value (input m)] \<and>
         Sequence [sendMessage (channelID m) (Value (input m)), refreshTick]
           \<in> set (launchedBy (snd (Update e (KeyMsg KeyEnter) m)))"
proof -
  have s: "snd (appendToHistory e (Value (input m)) m) = Some x"
    using assms(3) by (auto simp: appendToHistory_accepts(2) [OF assms(1,2)])
  show ?thesis
    by (simp add: Update_Enter [OF assms(1)] s updateWidgets_fields updateWidgets_cmd
        appendToHistory_accepts(1) [OF assms(1,2)] launched_Cons_Some_Sequence)
qed

lemma helloModel_eq: "helloModel = sampleModel\<lparr>input := \<lparr>Value = ''hello'', Width = 30, CharLimit = 4000\<rparr>\<rparr>"
  by (simp add: helloModel_def run_def Update_def updateWidgets_def sampleEnv_def
      typingInput_def sampleModel_def)

text \<open>
  At the input \<open>hello\<close>, on a disk where the file cannot be opened and on one where
  the write fails.
\<close>

theorem history_write_failure_witness:
  "TrimSpace (Value (input helloModel)) \<noteq> [] \<and>
   \<not> (history helloModel \<noteq> [] \<and> last (history helloModel) = Value (input helloModel)) \<and>
   OpenFile readOnlyDiskEnv (historyFile helloModel) = Some (Error ''read-only file system'') \<and>
   err (fst (Update readOnlyDiskEnv (KeyMsg KeyEnter) helloModel)) =
     Some (Error ''read-only file system'') \<and>
   history (fst (Update readOnlyDiskEnv (KeyMsg KeyEnter) helloModel)) = [''hello''] \<and>
   Sequence [sendMessage ''C1'' ''hello'', refreshTick]
     \<in> set (launchedBy (snd (Update readOnlyDiskEnv (KeyMsg KeyEnter) helloModel))) \<and>
   OpenFile fullDiskEnv (historyFile helloModel) = None \<and>
   WriteString fullDiskEnv (historyFile helloModel) (Value (input helloModel) @ [CHR 0x0A]) =
     Some (Error ''no space left on device'') \<and>
   err (fst (Update fullDiskEnv (KeyMsg KeyEnter) helloModel)) =
     Some (Error ''no space left on device'') \<and>
   history (fst (Update fullDiskEnv (KeyMsg KeyEnter) helloModel)) = [''hello''] \<and>
   Sequence [sendMessage ''C1'' ''hello'', refreshTick]
     \<in> set (launchedBy (snd (Update fullDiskEnv (KeyMsg KeyEnter) helloModel)))"
proof -
  have t: "TrimSpace (Value (input helloModel)) \<noteq> []"
    by (simp add: helloModel_eq TrimSpace_Nil_iff isSpace_def)
  have d: "\<not> (history helloModel \<noteq> [] \<and> last (history helloModel) = Value (input helloModel))"
    by (simp add: helloModel_eq sampleModel_def)
  have w: "OpenFile readOnlyDiskEnv (historyFile helloModel) = Some (Error ''read-only file system'')"
    by (simp add: readOnlyDiskEnv_def)
  have o: "OpenFile fullDiskEnv (historyFile helloModel) = None"
    by (simp add: fullDiskEnv_def sampleEnv_def)
  have f: "WriteString fullDiskEnv (historyFile helloModel) (Value (input helloModel) @ [CHR 0x0A]) =
             Some (Error ''no space left on device'')"
    by (simp add: fullDiskEnv_def)
  have c: "channelID helloModel = ''C1''" and v: "Value (input helloModel) = ''hello''"
    and h: "history helloModel = []"
    by (simp_all add: helloModel_eq sampleModel_def)
  show ?thesis
    using history_write_failure [OF t d disjI1 [OF w]]
          history_write_failure [OF t d disjI2 [OF conjI [OF o f]]] t d w o f
    by (simp add: c v h)
qed

text \<open>
  Claim C10. If the submitted text equals the last history entry while the cursor is
  below \<open>len\<close>, the history log rejects the duplicate before it resets the cursor: the
  cursor and the log stay as they are, so the cursor is still below \<open>len\<close>, while
  browsing mode is switched off and the input is emptied (\<open>Reset\<close>) before it is
  handed to the widget.
\<close>

theorem duplicate_submit_keeps_cursor:
  assumes "TrimSpace (Value (input m)) \<noteq> []"
    and "history m \<noteq> []" and "last (history m) = Value (input m)"
    and "historyIndex m < int (length (history m))"
  shows "historyIndex (fst (Update e (KeyMsg KeyEnter) m)) = historyIndex m \<and>
         history (fst (Update e (KeyMsg KeyEnter) m)) = history m \<and>
         historyIndex (fst (Update e (KeyMsg KeyEnter) m))
           < int (length (history (fst (Update e (KeyMsg KeyEnter) m)))) \<and>
         \<not> browsingHist (fst (Update e (KeyMsg KeyEnter) m)) \<and>
         input (fst (Update e (KeyMsg KeyEnter) m)) =
           fst (inputUpdate e (KeyMsg KeyEnter) (Reset (input m))) \<and>
         Value (Reset (input m)) = []"
proof -
  have a: "appendToHistory e (Value (input m)) m = (m, None)"
    using assms(2,3) by (simp add: appendToHistory_rejects)
  show ?thesis using assms(4)
    by (simp add: Update_Enter [OF assms(1)] a updateWidgets_fields Reset_def)
qed

lemma browsingModel_eq:
  "browsingModel = sampleModel\<lparr>input := \<lparr>Value = ''hi'', Width = 30, CharLimit = 4000\<rparr>,
     history := [''hi''], historyIndex := 0, browsingHist := True\<rparr>"
  by code_simp

text \<open>
  In the session where \<open>hi\<close> was typed and sent and the Up key pressed, Enter leaves
  the cursor at 0 in a log of one entry, with browsing mode off and an empty input.
\<close>

theorem duplicate_submit_keeps_cursor_witness:
  "TrimSpace (Value (input browsingModel)) \<noteq> [] \<and> history browsingModel \<noteq> [] \<and>
   last (history browsingModel) = Value (input browsingModel) \<and>
   historyIndex browsingModel < int (length (history browsingModel)) \<and>
   historyIndex (fst (Update sampleEnv (KeyMsg KeyEnter) browsingModel)) = 0 \<and>
   length (history (fst (Update sampleEnv (KeyMsg KeyEnter) browsingModel))) = 1 \<and>
   \<not> browsingHist (fst (Update sampleEnv (KeyMsg KeyEnter) browsingModel)) \<and>
   Value (input (fst (Update sampleEnv (KeyMsg KeyEnter) browsingModel))) = []"
proof -
  have t: "TrimSpace (Value (input browsingModel)) \<noteq> []"
    by (simp add: browsingModel_eq TrimSpace_Nil_iff isSpace_def)
  have h: "history browsingModel \<noteq> []" by (simp add: browsingModel_eq)
  have l: "last (history browsingModel) = Value (input browsingModel)"
    by (simp add: browsingModel_eq)
  have c: "historyIndex browsingModel < int (length (history browsingModel))"
    by (simp add: browsingModel_eq)
  show ?thesis
    using duplicate_submit_keeps_cursor [OF t h l c, of sampleEnv] t h l c
    by (simp add: browsingModel_eq sampleEnv_def typingInput_def Reset_def)
qed

subsection \<open>Invariants of a whole session\<close>

text \<open>
  Whatever the events, the history cursor stays in \<open>[0, len]\<close> (it starts at \<open>len\<close>),
  and the message sequence stays non-decreasing by timestamp: only a successful fetch
  changes it.
\<close>

lemma appendToHistory_cursorInRange:
  "cursorInRange m \<Longrightarrow> cursorInRange (fst (appendToHistory e s m))"
  by (simp add: appendToHistory_def cursorInRange_def Let_def split: option.splits)

lemma navigateHistory_cursorInRange: "cursorInRange (navigateHistory d m)"
  by (simp add: cursorInRange_def navigateHistory_index navigateHistory_history clampIndex_range)

lemma updateWidgets_cursorInRange:
  "cursorInRange (fst (updateWidgets e ev c m)) = cursorInRange m"
  by (simp add: cursorInRange_def updateWidgets_fields)

lemma cursorInRange_other_fields:
  "cursorInRange (m\<lparr>err := x\<rparr>) = cursorInRange m"
  "cursorInRange (m\<lparr>input := i\<rparr>) = cursorInRange m"
  "cursorInRange (m\<lparr>viewport := v\<rparr>) = cursorInRange m"
  "cursorInRange (m\<lparr>browsingHist := b\<rparr>) = cursorInRange m"
  "cursorInRange (m\<lparr>ready := r\<rparr>) = cursorInRange m"
  "cursorInRange (m\<lparr>refreshCount := n\<rparr>) = cursorInRange m"
  "cursorInRange (m\<lparr>messages := ms\<rparr>) = cursorInRange m"
  "cursorInRange (m\<lparr>messageIDs := ids\<rparr>) = cursorInRange m"
  "cursorInRange (m\<lparr>lastFetched := l\<rparr>) = cursorInRange m"
  by (simp_all add: cursorInRange_def)

lemma handleFetched_cursorInRange:
  "cursorInRange (handleFetched e B m) = cursorInRange m"
  by (simp add: handleFetched_eq updateViewportContent_def cursorInRange_other_fields)

lemma Update_cursorInRange:
  assumes "cursorInRange m"
  shows "cursorInRange (fst (Update e ev m))"
proof (cases ev)
  case (KeyMsg k)
  show ?thesis
  proof (cases k)
    case KeyEnter
    show ?thesis
    proof (cases "TrimSpace (Value (input m)) = []")
      case True
      then show ?thesis using assms
        by (simp add: Update_def KeyMsg KeyEnter updateWidgets_cursorInRange)
    next
      case False
      show ?thesis
        using assms appendToHistory_cursorInRange [OF assms, of e "Value (input m)"]
        by (simp add: KeyMsg KeyEnter Update_Enter [OF False] updateWidgets_cursorInRange
            cursorInRange_other_fields split: option.splits)
    qed
  qed (use assms in \<open>simp_all add: Update_def KeyMsg updateWidgets_cursorInRange
        navigateHistory_cursorInRange\<close>)
next
  case (fetchMessagesMsg batch er)
  then show ?thesis using assms
    by (simp add: Update_def updateWidgets_cursorInRange handleFetched_cursorInRange
        cursorInRange_other_fields split: option.splits)
qed (use assms in \<open>simp_all add: Update_def updateWidgets_cursorInRange Let_def
      updateViewportContent_def cursorInRange_other_fields split: option.splits\<close>)

lemma run_cursorInRange: "cursorInRange m \<Longrightarrow> cursorInRange (run e evs m)"
  unfolding run_def by (induction evs arbitrary: m) (simp_all add: Update_cursorInRange)

lemma initialModel_cursorInRange:
  "initialModel e cl chan = Inr m \<Longrightarrow> cursorInRange m"
  by (auto simp: initialModel_def cursorInRange_def Let_def split: sum.splits option.splits)

lemma appendToHistory_messages: "messages (fst (appendToHistory e s m)) = messages m"
  by (simp add: appendToHistory_def Let_def split: option.splits)

lemma navigateHistory_messages: "messages (navigateHistory d m) = messages m"
  by (simp add: navigateHistory_def Let_def)

lemma Update_messages:
  "messages (fst (Update e ev m)) =
     (case ev of
        fetchMessagesMsg (Some B) None \<Rightarrow> messages (merge e B m)
      | _ \<Rightarrow> messages m)"
proof (cases ev)
  case (KeyMsg k)
  show ?thesis
  proof (cases k)
    case KeyEnter
    show ?thesis
    proof (cases "TrimSpace (Value (input m)) = []")
      case True
      then show ?thesis
        by (simp add: Update_def KeyMsg KeyEnter updateWidgets_fields)
    next
      case False
      show ?thesis
        by (simp add: KeyMsg KeyEnter Update_Enter [OF False] updateWidgets_fields
            appendToHistory_messages split: option.splits)
    qed
  qed (simp_all add: Update_def KeyMsg updateWidgets_fields navigateHistory_messages)
next
  case (fetchMessagesMsg batch er)
  then show ?thesis
    by (simp add: merge_def Update_def updateWidgets_fields split: option.splits)
qed (simp_all add: Update_def updateWidgets_fields Let_def updateViewportContent_fields
      split: option.splits)

lemma Update_ascending:
  assumes "sortSlice_ok e" and "ascending (messages m)"
  shows "ascending (messages (fst (Update e ev m)))"
  using assms
  by (simp add: Update_messages merge_keeps_ascending split: msg.splits option.splits)

lemma run_ascending:
  assumes "sortSlice_ok e" and "ascending (messages m)"
  shows "ascending (messages (run e evs m))"
  using assms(2) unfolding run_def
  by (induction evs arbitrary: m) (simp_all add: Update_ascending [OF assms(1)])

end
